theory Spec2Isabelle
  imports Complex_Main "HOL-Library.Char_ord" "HOL-Library.List_Lexorder" "HOL-Library.AList"
begin

section \<open>Path strings (posixpath, fnmatch)\<close>

text \<open>
  The iterations component builds and takes apart path strings with the POSIX flavour of
  \<^verbatim>\<open>os.path\<close>. Strings are byte strings (Python 2 \<^verbatim>\<open>str\<close>), so \<open>string\<close> it is.
\<close>

definition extsep :: char where
  "extsep = CHR ''.''"

text \<open>\<^verbatim>\<open>str.split(sep)\<close> for a one-character separator: never the empty list.\<close>

fun split_sep :: "char \<Rightarrow> string \<Rightarrow> string list" where
  "split_sep s [] = [[]]"
| "split_sep s (c # cs) =
     (if c = s then [] # split_sep s cs
      else (case split_sep s cs of [] \<Rightarrow> [[c]] | w # ws \<Rightarrow> (c # w) # ws))"

text \<open>\<^verbatim>\<open>sep.join(xs)\<close>.\<close>

fun join_sep :: "string \<Rightarrow> string list \<Rightarrow> string" where
  "join_sep s [] = []"
| "join_sep s [x] = x"
| "join_sep s (x # y # ys) = x @ s @ join_sep s (y # ys)"

text \<open>\<^verbatim>\<open>posixpath.join(a, b)\<close>: an absolute \<open>b\<close> discards \<open>a\<close>.\<close>

definition path_join :: "string \<Rightarrow> string \<Rightarrow> string" where
  "path_join a b =
     (if take 1 b = ''/'' then b
      else if a = [] \<or> last a = CHR ''/'' then a @ b
      else a @ ''/'' @ b)"

text \<open>\<^verbatim>\<open>posixpath.basename(p)\<close>: what follows the last slash.\<close>

definition basename :: "string \<Rightarrow> string" where
  "basename p = rev (takeWhile (\<lambda>c. c \<noteq> CHR ''/'') (rev p))"

text \<open>
  \<^verbatim>\<open>posixpath.splitext(p)\<close>: split at the last dot of the last component, unless that
  component has nothing but dots before it.
\<close>

definition splitext :: "string \<Rightarrow> string \<times> string" where
  "splitext p =
     (let b = basename p;
          d = take (length p - length b) p;
          ext = rev (takeWhile (\<lambda>c. c \<noteq> CHR ''.'') (rev b));
          stem = take (length b - length ext - 1) b
      in if CHR ''.'' \<in> set b \<and> list_ex (\<lambda>c. c \<noteq> CHR ''.'') stem
         then (d @ stem, CHR ''.'' # ext)
         else (p, []))"

text \<open>
  The loop of \<^verbatim>\<open>posixpath.normpath\<close> over the components: \<open>a\<close> says that the path
  has initial slashes, \<open>new\<close> is \<^verbatim>\<open>new_comps\<close>.
\<close>

fun normpath_comps :: "bool \<Rightarrow> string list \<Rightarrow> string list \<Rightarrow> string list" where
  "normpath_comps a new [] = new"
| "normpath_comps a new (c # cs) =
     (if c = [] \<or> c = ''.'' then normpath_comps a new cs
      else if c \<noteq> ''..'' \<or> (\<not> a \<and> new = []) \<or> (new \<noteq> [] \<and> last new = ''..'')
        then normpath_comps a (new @ [c]) cs
      else if new \<noteq> [] then normpath_comps a (butlast new) cs
      else normpath_comps a new cs)"

definition normpath :: "string \<Rightarrow> string" where
  "normpath path =
     (if path = [] then ''.''
      else
        let initial_slashes =
              (if take 1 path = ''/''
               then (if take 2 path = ''//'' \<and> take 3 path \<noteq> ''///'' then 2 else 1)
               else (0::nat));
            comps = normpath_comps (initial_slashes \<noteq> 0) [] (split_sep CHR ''/'' path);
            p = replicate initial_slashes CHR ''/'' @ join_sep ''/'' comps
        in if p = [] then ''.'' else p)"

text \<open>
  \<^verbatim>\<open>posixpath.abspath(p)\<close>. The working directory is taken to be the root; the component
  only ever passes absolute paths.
\<close>

definition abspath :: "string \<Rightarrow> string" where
  "abspath p = (if take 1 p = ''/'' then normpath p else normpath (path_join ''/'' p))"

text \<open>
  \<^verbatim>\<open>fnmatch.fnmatch(name, pat)\<close> for patterns made of literal characters, \<^verbatim>\<open>*\<close> and
  \<^verbatim>\<open>?\<close> (the component's only pattern has no bracket expression).
\<close>

fun fnmatch :: "string \<Rightarrow> string \<Rightarrow> bool" where
  "fnmatch [] [] = True"
| "fnmatch (c # cs) [] = False"
| "fnmatch [] (p # ps) = (p = CHR ''*'' \<and> fnmatch [] ps)"
| "fnmatch (c # cs) (p # ps) =
     (if p = CHR ''*'' then fnmatch (c # cs) ps \<or> fnmatch cs (p # ps)
      else if p = CHR ''?'' then fnmatch cs ps
      else p = c \<and> fnmatch cs ps)"

section \<open>The file system\<close>

text \<open>
  A disk is a table from locations to entries; a location is the list of the names on the
  way down from the root. A location is a directory when the table says so for it and for
  every location above it; the root always is one. The content of a file is left open
  (\<open>'c\<close>): the component never looks into it.

  Not modelled: symbolic links, permissions, name length limits, a full disk.
\<close>

datatype 'c entry = File 'c | Directory

type_synonym path = "string list"

type_synonym 'c disk = "(path \<times> 'c entry) list"

fun isdir :: "'c disk \<Rightarrow> path \<Rightarrow> bool" where
  "isdir d p =
     (if p = [] then True else map_of d p = Some Directory \<and> isdir d (butlast p))"

declare isdir.simps [simp del]

text \<open>\<^verbatim>\<open>os.listdir\<close>: \<open>None\<close> is \<^verbatim>\<open>os.error\<close>.\<close>

definition listdir :: "'c disk \<Rightarrow> path \<Rightarrow> string list option" where
  "listdir d p =
     (if isdir d p
      then Some (map (\<lambda>qe. last (fst qe)) (filter (\<lambda>qe. fst qe \<noteq> [] \<and> butlast (fst qe) = p) d))
      else None)"

text \<open>
  Path resolution, one component at a time, from the location \<open>cur\<close>: every component is
  looked up in a directory; empty components and \<^verbatim>\<open>.\<close> stay, \<^verbatim>\<open>..\<close> goes up (the
  root is its own parent). The last name need not exist.
\<close>

fun walk :: "'c disk \<Rightarrow> path \<Rightarrow> string list \<Rightarrow> path option" where
  "walk d cur [] = Some cur"
| "walk d cur (c # cs) =
     (if \<not> isdir d cur then None
      else if c = [] \<or> c = ''.'' then walk d cur cs
      else if c = ''..'' then walk d (butlast cur) cs
      else walk d (cur @ [c]) cs)"

datatype error =
    ValueError string
  | LASIFNotFoundError string
  | IOError
  | TypeError
  | ParseError

text \<open>
  Where a path string leads. A NUL byte in the name is Python's \<^verbatim>\<open>TypeError\<close>, a
  component that is missing or not a directory is \<^verbatim>\<open>IOError\<close>.
\<close>

definition resolve :: "'c disk \<Rightarrow> string \<Rightarrow> error + path" where
  "resolve d s =
     (if CHR 0x00 \<in> set s then Inl TypeError
      else (case walk d [] (split_sep CHR ''/'' s) of
              None \<Rightarrow> Inl IOError
            | Some p \<Rightarrow> Inr p))"

text \<open>\<^verbatim>\<open>with open(name, "wt") as fh: fh.write(text)\<close>: creates the file or replaces its content.\<close>

definition open_write :: "'c disk \<Rightarrow> string \<Rightarrow> 'c \<Rightarrow> error + 'c disk" where
  "open_write d s text =
     (case resolve d s of
        Inl e \<Rightarrow> Inl e
      | Inr p \<Rightarrow>
          if p = [] \<or> map_of d p = Some Directory then Inl IOError
          else Inr (AList.update p (File text) d))"

text \<open>Reading a file whole.\<close>

definition open_read :: "'c disk \<Rightarrow> string \<Rightarrow> error + 'c" where
  "open_read d s =
     (case resolve d s of
        Inl e \<Rightarrow> Inl e
      | Inr p \<Rightarrow>
          (case map_of d p of
             Some (File text) \<Rightarrow> if p = [] then Inl IOError else Inr text
           | _ \<Rightarrow> Inl IOError))"

text \<open>
  \<^verbatim>\<open>glob.glob1(dirname, pattern)\<close>, with the directory given as a location: the names of
  the directory that match, hidden names left out unless the pattern starts with a dot.
\<close>

definition glob1 :: "'c disk \<Rightarrow> path \<Rightarrow> string \<Rightarrow> string list" where
  "glob1 d dir pattern =
     (case listdir d dir of
        None \<Rightarrow> []
      | Some names \<Rightarrow>
          filter (\<lambda>n. fnmatch n pattern)
            (if take 1 pattern \<noteq> ''.'' then filter (\<lambda>x. take 1 x \<noteq> ''.'') names else names))"

section \<open>The iterations component\<close>

text \<open>
  \<^verbatim>\<open>IterationsComponent\<close> has one field, \<^verbatim>\<open>_folder\<close>, and keeps nothing else between
  calls: every method reads the directory again. Its state is therefore the folder together
  with the disk. The folder is held as the location it names (LASIF passes an absolute
  path), \<open>folder_str\<close> being the string in \<^verbatim>\<open>self._folder\<close>.
\<close>

record 'c iterations_component =
  folder :: path
  disk :: "'c disk"

definition folder_str :: "path \<Rightarrow> string" where
  "folder_str fp = CHR ''/'' # join_sep ''/'' fp"

text \<open>
  What a name in a directory can be, and what \<^verbatim>\<open>glob\<close> takes for a pattern. A state is
  well formed when the names on the disk and in the folder are file names, and the folder
  has nothing \<^verbatim>\<open>glob\<close> would read as a pattern.
\<close>

definition valid_name :: "string \<Rightarrow> bool" where
  "valid_name n \<longleftrightarrow>
     n \<noteq> [] \<and> n \<noteq> ''.'' \<and> n \<noteq> ''..'' \<and> CHR ''/'' \<notin> set n \<and> CHR 0x00 \<notin> set n"



text \<open>
  The collaborators of \<^verbatim>\<open>lasif.iteration_xml\<close>, which the component calls and which
  are not part of it: the function that renders a new iteration, and the class
  \<^verbatim>\<open>Iteration\<close> with its constructor (from the content of a file) and its \<^verbatim>\<open>write\<close>.
  Of an iteration the component touches the name and the comments; \<open>settings\<close> is all the rest.
\<close>

record 'x iteration =
  iteration_name :: string
  comments :: "string list"
  settings :: 'x

record ('c, 'p, 'x) iteration_xml =
  create_iteration_xml_string ::
    "string \<Rightarrow> string \<Rightarrow> (string \<times> string list) list \<Rightarrow> 'p \<Rightarrow> 'p \<Rightarrow> 'c"
  parse_iteration :: "'c \<Rightarrow> 'x iteration option"
  write_iteration :: "'x iteration \<Rightarrow> 'c"

text \<open>\<^verbatim>\<open>Iteration(path)\<close>: read the file, parse it.\<close>

definition load_iteration ::
  "('c, 'p, 'x) iteration_xml \<Rightarrow> 'c disk \<Rightarrow> string \<Rightarrow> error + 'x iteration" where
  "load_iteration X d filename =
     (case open_read d filename of
        Inl e \<Rightarrow> Inl e
      | Inr text \<Rightarrow>
          (case parse_iteration X text of
             None \<Rightarrow> Inl ParseError
           | Some it \<Rightarrow> Inr it))"

definition get_long_iteration_name :: "string \<Rightarrow> string" where
  "get_long_iteration_name name = ''ITERATION_'' @ name"

definition get_filename_for_iteration :: "'c iterations_component \<Rightarrow> string \<Rightarrow> string" where
  "get_filename_for_iteration r name =
     path_join (folder_str (folder r))
       (get_long_iteration_name name @ [extsep] @ ''xml'')"

text \<open>The name of the file of an iteration, within the folder.\<close>

definition xml_name :: "string \<Rightarrow> string" where
  "xml_name name = get_long_iteration_name name @ [extsep] @ ''xml''"

text \<open>
  \<^verbatim>\<open>glob.iglob(os.path.join(self._folder, pattern))\<close> for a pattern without a slash: the
  folder has no magic, so the matches are the matching names of that one directory, each
  joined to the folder.
\<close>

definition iglob :: "'c iterations_component \<Rightarrow> string \<Rightarrow> string list" where
  "iglob r pattern =
     map (path_join (folder_str (folder r))) (glob1 (disk r) (folder r) pattern)"

text \<open>The key of the dictionary comprehension in \<^verbatim>\<open>get_iteration_dict\<close>.\<close>

definition iteration_key :: "string \<Rightarrow> string" where
  "iteration_key i = drop 10 (fst (splitext (basename i)))"

text \<open>
  The dictionary is an association list with one pair per key; a later file with the same
  key replaces the earlier one, as in the comprehension.
\<close>

definition iteration_pattern :: string where
  "iteration_pattern = ''ITERATION_*'' @ [extsep] @ ''xml''"

definition get_iteration_dict :: "'c iterations_component \<Rightarrow> (string \<times> string) list" where
  "get_iteration_dict r =
     (let files = map abspath (iglob r iteration_pattern)
      in fold (\<lambda>i it_dict. AList.update (iteration_key i) i it_dict) files [])"



definition has_iteration :: "'c iterations_component \<Rightarrow> string \<Rightarrow> bool" where
  "has_iteration r name \<longleftrightarrow> name \<in> set (map fst (get_iteration_dict r))"

definition create_new_iteration ::
  "('c, 'p, 'x) iteration_xml \<Rightarrow> 'c iterations_component \<Rightarrow> string \<Rightarrow> string \<Rightarrow>
     (string \<times> string list) list \<Rightarrow> 'p \<Rightarrow> 'p \<Rightarrow> error + 'c iterations_component" where
  "create_new_iteration X r name solver_name events_dict min_period max_period =
     (if name \<in> set (map fst (get_iteration_dict r))
      then Inl (ValueError (''Iteration '' @ name @ '' already exists.''))
      else
        let xml_string = create_iteration_xml_string X name solver_name events_dict
                           min_period max_period
        in (case open_write (disk r) (get_filename_for_iteration r name) xml_string of
              Inl e \<Rightarrow> Inl e
            | Inr d \<Rightarrow> Inr (r\<lparr>disk := d\<rparr>)))"

definition save_iteration ::
  "('c, 'p, 'x) iteration_xml \<Rightarrow> 'c iterations_component \<Rightarrow> 'x iteration \<Rightarrow>
     error + 'c iterations_component" where
  "save_iteration X r it =
     (let filename = get_filename_for_iteration r (iteration_name it)
      in (case open_write (disk r) filename (write_iteration X it) of
            Inl e \<Rightarrow> Inl e
          | Inr d \<Rightarrow> Inr (r\<lparr>disk := d\<rparr>)))"

definition create_successive_iteration ::
  "('c, 'p, 'x) iteration_xml \<Rightarrow> 'c iterations_component \<Rightarrow> string \<Rightarrow> string \<Rightarrow>
     error + 'c iterations_component" where
  "create_successive_iteration X r existing_iteration_name new_iteration_name =
     (let it_dict = get_iteration_dict r
      in (case map_of it_dict existing_iteration_name of
            None \<Rightarrow>
              Inl (LASIFNotFoundError
                     (''Iteration '' @ existing_iteration_name @ '' does not exists.''))
          | Some filename \<Rightarrow>
              if new_iteration_name \<in> set (map fst it_dict)
              then Inl (ValueError (''Iteration '' @ new_iteration_name @ '' already exists.''))
              else
                (case load_iteration X (disk r) filename of
                   Inl e \<Rightarrow> Inl e
                 | Inr existing_iteration \<Rightarrow>
                     save_iteration X r
                       (existing_iteration\<lparr>comments := [],
                                            iteration_name := new_iteration_name\<rparr>))))"

definition get ::
  "('c, 'p, 'x) iteration_xml \<Rightarrow> 'c iterations_component \<Rightarrow> string \<Rightarrow> error + 'x iteration" where
  "get X r name =
     (let it_dict = get_iteration_dict r
      in (case map_of it_dict name of
            None \<Rightarrow>
              Inl (LASIFNotFoundError
                     (''Iteration '' @ [CHR 0x27] @ name @ [CHR 0x27] @ '' not found.''))
          | Some filename \<Rightarrow> load_iteration X (disk r) filename))"

section \<open>The command resolver\<close>











section \<open>The status aggregator\<close>









section \<open>A small project\<close>



section \<open>Properties of the naming scheme\<close>











subsection \<open>The dictionary\<close>




section \<open>Failures of the component\<close>

lemma open_write_error: "open_write d s t = Inl e \<Longrightarrow> e = IOError \<or> e = TypeError"
  by (auto simp: open_write_def resolve_def split: sum.splits if_splits option.splits)

lemma open_read_error: "open_read d s = Inl e \<Longrightarrow> e = IOError \<or> e = TypeError"
  by (auto simp: open_read_def resolve_def split: sum.splits if_splits option.splits entry.splits)

lemma load_iteration_error:
  "load_iteration X d s = Inl e \<Longrightarrow> e = IOError \<or> e = TypeError \<or> e = ParseError"
  by (auto simp: load_iteration_def split: sum.splits option.splits dest: open_read_error)

lemma save_iteration_error:
  "save_iteration X r it = Inl e \<Longrightarrow> e = IOError \<or> e = TypeError"
  by (auto simp: save_iteration_def Let_def split: sum.splits dest: open_write_error)

lemma mem_keys: "k \<in> fst ` set al \<longleftrightarrow> map_of al k \<noteq> None"
  by (simp add: map_of_eq_None_iff)

lemma has_iteration_map_of: "has_iteration r k \<longleftrightarrow> map_of (get_iteration_dict r) k \<noteq> None"
  by (simp add: has_iteration_def map_of_eq_None_iff)

lemma create_new_iteration_error:
  "create_new_iteration X r k sv ev p1 p2 = Inl e \<Longrightarrow>
     (has_iteration r k \<and> e = ValueError (''Iteration '' @ k @ '' already exists.'')) \<or>
     (\<not> has_iteration r k \<and> (e = IOError \<or> e = TypeError))"
  by (auto simp: create_new_iteration_def has_iteration_def Let_def
           split: if_splits sum.splits dest: open_write_error)

lemma create_successive_iteration_error:
  "create_successive_iteration X r s d = Inl e \<Longrightarrow>
     (\<not> has_iteration r s \<and> e = LASIFNotFoundError (''Iteration '' @ s @ '' does not exists.'')) \<or>
     (has_iteration r s \<and> has_iteration r d \<and>
        e = ValueError (''Iteration '' @ d @ '' already exists.'')) \<or>
     (has_iteration r s \<and> \<not> has_iteration r d \<and> (e = IOError \<or> e = TypeError \<or> e = ParseError))"
  unfolding create_successive_iteration_def Let_def has_iteration_map_of
  by (auto simp: mem_keys split: option.splits if_splits sum.splits
           dest: load_iteration_error save_iteration_error)

lemma get_error:
  "get X r k = Inl e \<Longrightarrow>
     (\<not> has_iteration r k \<and>
        e = LASIFNotFoundError (''Iteration '' @ [CHR 0x27] @ k @ [CHR 0x27] @ '' not found.'')) \<or>
     (has_iteration r k \<and> (e = IOError \<or> e = TypeError \<or> e = ParseError))"
  unfolding get_def Let_def has_iteration_map_of
  by (auto split: option.splits dest: load_iteration_error)

text \<open>
  Claim C2. The two kinds of failure of the component are \<^verbatim>\<open>ValueError\<close> (the name already
  exists) and \<^verbatim>\<open>LASIFNotFoundError\<close> (the name is not known). Creating fails with the first
  exactly when the name exists, and never with the second; cloning fails with the second
  exactly when the source is absent, and with the first exactly when the source is present
  and the destination is too; \<^verbatim>\<open>get\<close> fails with the second exactly when the name is absent,
  and never with the first. Whatever else fails is an error of the file system or of the
  parser, passed on as it comes.
\<close>

theorem failure_taxonomy:
  "((\<exists>m. create_new_iteration X r k sv ev p1 p2 = Inl (ValueError m)) \<longleftrightarrow> has_iteration r k) \<and>
   (\<forall>m. create_new_iteration X r k sv ev p1 p2 \<noteq> Inl (LASIFNotFoundError m)) \<and>
   ((\<exists>m. create_successive_iteration X r s d = Inl (LASIFNotFoundError m)) \<longleftrightarrow>
      \<not> has_iteration r s) \<and>
   ((\<exists>m. create_successive_iteration X r s d = Inl (ValueError m)) \<longleftrightarrow>
      has_iteration r s \<and> has_iteration r d) \<and>
   ((\<exists>m. get X r k = Inl (LASIFNotFoundError m)) \<longleftrightarrow> \<not> has_iteration r k) \<and>
   (\<forall>m. get X r k \<noteq> Inl (ValueError m))"
proof -
  have c1: "has_iteration r k \<Longrightarrow> \<exists>m. create_new_iteration X r k sv ev p1 p2 = Inl (ValueError m)"
    by (simp add: create_new_iteration_def has_iteration_def)
  have c2: "create_new_iteration X r k sv ev p1 p2 = Inl (ValueError m) \<Longrightarrow> has_iteration r k" for m
    by (auto dest: create_new_iteration_error)
  have c3: "create_new_iteration X r k sv ev p1 p2 \<noteq> Inl (LASIFNotFoundError m)" for m
    by (auto dest: create_new_iteration_error)
  have s1: "\<not> has_iteration r s \<Longrightarrow>
      \<exists>m. create_successive_iteration X r s d = Inl (LASIFNotFoundError m)"
    by (simp add: create_successive_iteration_def has_iteration_map_of)
  have s2: "create_successive_iteration X r s d = Inl (LASIFNotFoundError m) \<Longrightarrow>
      \<not> has_iteration r s" for m
    by (auto dest: create_successive_iteration_error)
  have s3: "has_iteration r s \<Longrightarrow> has_iteration r d \<Longrightarrow>
      \<exists>m. create_successive_iteration X r s d = Inl (ValueError m)"
    by (auto simp: create_successive_iteration_def has_iteration_map_of Let_def mem_keys)
  have s4: "create_successive_iteration X r s d = Inl (ValueError m) \<Longrightarrow>
      has_iteration r s \<and> has_iteration r d" for m
    by (auto dest: create_successive_iteration_error)
  have g1: "\<not> has_iteration r k \<Longrightarrow> \<exists>m. get X r k = Inl (LASIFNotFoundError m)"
    by (simp add: get_def has_iteration_map_of)
  have g2: "get X r k = Inl (LASIFNotFoundError m) \<Longrightarrow> \<not> has_iteration r k" for m
    by (auto dest: get_error)
  have g3: "get X r k \<noteq> Inl (ValueError m)" for m
    by (auto dest: get_error)
  show ?thesis
    using c1 c2 c3 s1 s2 s3 s4 g1 g2 g3 by blast
qed

section \<open>Paths of well-formed names\<close>

lemma split_sep_not_Nil [simp]: "split_sep s x \<noteq> []"
  by (induction x) (auto split: list.splits)










lemma valid_nameD:
  "valid_name n \<Longrightarrow> n \<noteq> [] \<and> n \<noteq> ''.'' \<and> n \<noteq> ''..'' \<and> CHR ''/'' \<notin> set n \<and> CHR 0x00 \<notin> set n"
  by (simp add: valid_name_def)












subsection \<open>Directories\<close>

lemma isdir_Nil [simp]: "isdir d []"
  by (simp add: isdir.simps)

lemma isdir_snoc: "isdir d (p @ [c]) \<longleftrightarrow> map_of d (p @ [c]) = Some Directory \<and> isdir d p"
  by (subst isdir.simps) simp







lemma isdir_update_File:
  assumes "map_of d q \<noteq> Some Directory"
  shows "isdir (AList.update q (File t) d) p \<longleftrightarrow> isdir d p"
proof (induction p rule: rev_induct)
  case Nil
  show ?case by simp
next
  case (snoc c p)
  show ?case
    using snoc assms by (auto simp: isdir_snoc update_conv')
qed

lemma listdir_keys:
  "listdir d p =
     (if isdir d p
      then Some (map last (filter (\<lambda>q. q \<noteq> [] \<and> butlast q = p) (map fst d)))
      else None)"
  by (simp add: listdir_def filter_map comp_def)

lemma mem_listdir:
  "listdir d p = Some names \<Longrightarrow> n \<in> set names \<longleftrightarrow> p @ [n] \<in> fst ` set d"
proof -
  assume "listdir d p = Some names"
  then have names: "names = map last (filter (\<lambda>q. q \<noteq> [] \<and> butlast q = p) (map fst d))"
    by (simp add: listdir_keys split: if_splits)
  show ?thesis
  proof
    assume "n \<in> set names"
    then obtain q where q: "q \<in> fst ` set d" "q \<noteq> []" "butlast q = p" "last q = n"
      unfolding names by auto
    then have "q = p @ [n]" by (metis append_butlast_last_id)
    then show "p @ [n] \<in> fst ` set d" using q(1) by simp
  next
    assume "p @ [n] \<in> fst ` set d"
    then have "p @ [n] \<in> set (filter (\<lambda>q. q \<noteq> [] \<and> butlast q = p) (map fst d))"
      by simp
    then have "last (p @ [n]) \<in> set names"
      unfolding names by (metis (no_types, lifting) image_eqI set_map)
    then show "n \<in> set names" by simp
  qed
qed

lemma listdir_update_File:
  assumes "map_of d (p @ [n]) \<noteq> Some Directory" "listdir d p = Some names"
  shows "listdir (AList.update (p @ [n]) (File t) d) p =
           Some (if n \<in> set names then names else names @ [n])"
proof -
  have dir: "isdir d p" using assms(2) by (simp add: listdir_def split: if_splits)
  have names: "names = map last (filter (\<lambda>q. q \<noteq> [] \<and> butlast q = p) (map fst d))"
    using assms(2) by (simp add: listdir_keys split: if_splits)
  have mem: "n \<in> set names \<longleftrightarrow> p @ [n] \<in> set (map fst d)"
    using mem_listdir [OF assms(2)] by simp
  show ?thesis
    unfolding listdir_keys [of "AList.update (p @ [n]) (File t) d"]
    using dir assms(1) names mem
    by (simp add: isdir_update_File update_keys)
qed

subsection \<open>The dictionary of a well-formed state\<close>




lemma xml_name_eq: "xml_name k = ''ITERATION_'' @ k @ ''.xml''"
  by (simp add: xml_name_def get_long_iteration_name_def extsep_def)

lemma xml_name_inj [simp]: "xml_name k = xml_name k' \<longleftrightarrow> k = k'"
  by (simp add: xml_name_eq)








subsection \<open>Writing the file of an iteration\<close>












subsection \<open>Cloning\<close>





section \<open>Properties of the command resolver\<close>









section \<open>Properties of the status aggregator\<close>


end
